theory Spec2Isabelle
  imports Main "HOL-Library.Word" "HOL-Library.Sublist"
begin

section \<open>Nullable domain types\<close>

text \<open>
  The program declares five named types over the nullable scalars of the dbr library:
  \<^verbatim>\<open>CardinalNumber dbr.NullInt64\<close>, \<^verbatim>\<open>CharacterData dbr.NullString\<close>,
  \<^verbatim>\<open>SQLIdentifier dbr.NullString\<close>, \<^verbatim>\<open>TimeStamp dbr.NullTime\<close> and
  \<^verbatim>\<open>YesOrNo dbr.NullString\<close>. The three library structs are a payload next to the
  flag \<open>Valid\<close>; their declarations are in the library, not in the program, and are
  written here as records. Where two records share a field name the qualified name
  (\<open>NullString.Valid\<close>, \<open>NullInt64.Valid\<close>, \<open>NullTime.Valid\<close>) tells them apart.
  An instant of \<^verbatim>\<open>time.Time\<close> is an integer count of nanoseconds.
\<close>

type_synonym int64 = "64 word"
type_synonym Time = int

record NullInt64 =
  Int64 :: int64
  Valid :: bool

record NullTime =
  Time :: Time
  Valid :: bool

record NullString =
  String :: string
  Valid :: bool

type_synonym CardinalNumber = NullInt64
type_synonym CharacterData = NullString
type_synonym SQLIdentifier = NullString
type_synonym TimeStamp = NullTime
type_synonym YesOrNo = NullString

section \<open>Catalog record types\<close>

text \<open>
  The rows of \<^verbatim>\<open>information_schema.schemata\<close>, \<^verbatim>\<open>information_schema.tables\<close> and
  \<^verbatim>\<open>information_schema.columns\<close>, field by field as the structs declare them.
  \<open>TTables\<close> and \<open>TColumns\<close> both have the fields \<open>TableCatalog\<close>, \<open>TableSchema\<close>
  and \<open>TableName\<close>; the qualified names select the record.
\<close>

record TSchemata =
  CatalogName :: SQLIdentifier
  SchemaName :: SQLIdentifier
  SchemaOwner :: SQLIdentifier
  DefaultCharacterSetCatalog :: SQLIdentifier
  DefaultCharacterSetSchema :: SQLIdentifier
  DefaultCharacterSetName :: SQLIdentifier
  SQLPath :: CharacterData

record TTables =
  TableCatalog :: SQLIdentifier
  TableSchema :: SQLIdentifier
  TableName :: SQLIdentifier
  TableType :: CharacterData
  SelfReferencingColumnName :: SQLIdentifier
  ReferenceGeneration :: CharacterData
  UserDefinedTypeCatalog :: SQLIdentifier
  UserDefinedTypeSchema :: SQLIdentifier
  UserDefinedTypeName :: SQLIdentifier
  IsInsertableInto :: YesOrNo
  IsTyped :: YesOrNo
  CommitAction :: CharacterData

record TColumns =
  TableCatalog :: SQLIdentifier
  TableSchema :: SQLIdentifier
  TableName :: SQLIdentifier
  ColumnName :: SQLIdentifier
  OrdinalPosition :: CardinalNumber
  ColumnDefault :: CharacterData
  IsNullable :: YesOrNo
  DataType :: CharacterData
  CharacterMaximumLength :: CardinalNumber
  CharacterOctetLength :: CardinalNumber
  NumericPrecision :: CardinalNumber
  NumericPrecisionRadix :: CardinalNumber
  NumericScale :: CardinalNumber
  DatetimePrecision :: CardinalNumber
  IntervalType :: CharacterData
  IntervalPrecision :: CardinalNumber
  CharacterSetCatalog :: SQLIdentifier
  CharacterSetSchema :: SQLIdentifier
  CharacterSetName :: SQLIdentifier
  CollationCatalog :: SQLIdentifier
  CollationSchema :: SQLIdentifier
  CollationName :: SQLIdentifier
  DomainCatalog :: SQLIdentifier
  DomainSchema :: SQLIdentifier
  DomainName :: SQLIdentifier
  UdtCatalog :: SQLIdentifier
  UdtSchema :: SQLIdentifier
  UdtName :: SQLIdentifier
  ScopeCatalog :: SQLIdentifier
  ScopeSchema :: SQLIdentifier
  ScopeName :: SQLIdentifier
  MaximumCardinality :: CardinalNumber
  DtdIdentifier :: SQLIdentifier
  IsSelfReferencing :: YesOrNo
  IsIdentity :: YesOrNo
  IdentityGeneration :: CharacterData
  IdentityStart :: CharacterData
  IdentityIncrement :: CharacterData
  IdentityMaximum :: CharacterData
  IdentityMinimum :: CharacterData
  IdentityCycle :: YesOrNo
  IsGenerated :: CharacterData
  GenerationExpression :: CharacterData
  IsUpdatable :: YesOrNo

text \<open>
  What reflection sees of a struct field: its name, its type and the value of its
  \<^verbatim>\<open>db:"..."\<close> tag, \<open>None\<close> where the declaration carries no tag.
\<close>

datatype DomainType = TCardinalNumber | TCharacterData | TSQLIdentifier | TTimeStamp | TYesOrNo

record StructField =
  FieldName :: string
  FieldType :: DomainType
  DbTag :: "string option"

definition TSchemata_fields :: "StructField list" where
  "TSchemata_fields =
    [\<lparr>FieldName = ''CatalogName'', FieldType = TSQLIdentifier, DbTag = Some ''catalog_name''\<rparr>,
     \<lparr>FieldName = ''SchemaName'', FieldType = TSQLIdentifier, DbTag = None\<rparr>,
     \<lparr>FieldName = ''SchemaOwner'', FieldType = TSQLIdentifier, DbTag = None\<rparr>,
     \<lparr>FieldName = ''DefaultCharacterSetCatalog'', FieldType = TSQLIdentifier, DbTag = None\<rparr>,
     \<lparr>FieldName = ''DefaultCharacterSetSchema'', FieldType = TSQLIdentifier, DbTag = None\<rparr>,
     \<lparr>FieldName = ''DefaultCharacterSetName'', FieldType = TSQLIdentifier, DbTag = None\<rparr>,
     \<lparr>FieldName = ''SQLPath'', FieldType = TCharacterData, DbTag = None\<rparr>]"

definition TTables_fields :: "StructField list" where
  "TTables_fields =
    [\<lparr>FieldName = ''TableCatalog'', FieldType = TSQLIdentifier, DbTag = Some ''table_catalog''\<rparr>,
     \<lparr>FieldName = ''TableSchema'', FieldType = TSQLIdentifier, DbTag = Some ''table_schema''\<rparr>,
     \<lparr>FieldName = ''TableName'', FieldType = TSQLIdentifier, DbTag = Some ''table_name''\<rparr>,
     \<lparr>FieldName = ''TableType'', FieldType = TCharacterData, DbTag = Some ''table_type''\<rparr>,
     \<lparr>FieldName = ''SelfReferencingColumnName'', FieldType = TSQLIdentifier, DbTag = Some ''self_referencing_column_name''\<rparr>,
     \<lparr>FieldName = ''ReferenceGeneration'', FieldType = TCharacterData, DbTag = Some ''reference_generation''\<rparr>,
     \<lparr>FieldName = ''UserDefinedTypeCatalog'', FieldType = TSQLIdentifier, DbTag = Some ''user_defined_type_catalog''\<rparr>,
     \<lparr>FieldName = ''UserDefinedTypeSchema'', FieldType = TSQLIdentifier, DbTag = Some ''user_defined_type_schema''\<rparr>,
     \<lparr>FieldName = ''UserDefinedTypeName'', FieldType = TSQLIdentifier, DbTag = Some ''user_defined_type_name''\<rparr>,
     \<lparr>FieldName = ''IsInsertableInto'', FieldType = TYesOrNo, DbTag = Some ''is_insertable_into''\<rparr>,
     \<lparr>FieldName = ''IsTyped'', FieldType = TYesOrNo, DbTag = Some ''is_typed''\<rparr>,
     \<lparr>FieldName = ''CommitAction'', FieldType = TCharacterData, DbTag = Some ''commit_action''\<rparr>]"

definition TColumns_fields :: "StructField list" where
  "TColumns_fields =
    [\<lparr>FieldName = ''TableCatalog'', FieldType = TSQLIdentifier, DbTag = Some ''table_catalog''\<rparr>,
     \<lparr>FieldName = ''TableSchema'', FieldType = TSQLIdentifier, DbTag = Some ''table_schema''\<rparr>,
     \<lparr>FieldName = ''TableName'', FieldType = TSQLIdentifier, DbTag = Some ''table_name''\<rparr>,
     \<lparr>FieldName = ''ColumnName'', FieldType = TSQLIdentifier, DbTag = Some ''column_name''\<rparr>,
     \<lparr>FieldName = ''OrdinalPosition'', FieldType = TCardinalNumber, DbTag = Some ''ordinal_position''\<rparr>,
     \<lparr>FieldName = ''ColumnDefault'', FieldType = TCharacterData, DbTag = Some ''column_default''\<rparr>,
     \<lparr>FieldName = ''IsNullable'', FieldType = TYesOrNo, DbTag = Some ''is_nullable''\<rparr>,
     \<lparr>FieldName = ''DataType'', FieldType = TCharacterData, DbTag = Some ''data_type''\<rparr>,
     \<lparr>FieldName = ''CharacterMaximumLength'', FieldType = TCardinalNumber, DbTag = Some ''character_maximum_length''\<rparr>,
     \<lparr>FieldName = ''CharacterOctetLength'', FieldType = TCardinalNumber, DbTag = Some ''character_octet_length''\<rparr>,
     \<lparr>FieldName = ''NumericPrecision'', FieldType = TCardinalNumber, DbTag = Some ''numeric_precision''\<rparr>,
     \<lparr>FieldName = ''NumericPrecisionRadix'', FieldType = TCardinalNumber, DbTag = Some ''numeric_precision_radix''\<rparr>,
     \<lparr>FieldName = ''NumericScale'', FieldType = TCardinalNumber, DbTag = Some ''numeric_scale''\<rparr>,
     \<lparr>FieldName = ''DatetimePrecision'', FieldType = TCardinalNumber, DbTag = Some ''datetime_precision''\<rparr>,
     \<lparr>FieldName = ''IntervalType'', FieldType = TCharacterData, DbTag = Some ''interval_type''\<rparr>,
     \<lparr>FieldName = ''IntervalPrecision'', FieldType = TCardinalNumber, DbTag = Some ''interval_precision''\<rparr>,
     \<lparr>FieldName = ''CharacterSetCatalog'', FieldType = TSQLIdentifier, DbTag = Some ''character_set_catalog''\<rparr>,
     \<lparr>FieldName = ''CharacterSetSchema'', FieldType = TSQLIdentifier, DbTag = Some ''character_set_schema''\<rparr>,
     \<lparr>FieldName = ''CharacterSetName'', FieldType = TSQLIdentifier, DbTag = Some ''character_set_name''\<rparr>,
     \<lparr>FieldName = ''CollationCatalog'', FieldType = TSQLIdentifier, DbTag = Some ''collation_catalog''\<rparr>,
     \<lparr>FieldName = ''CollationSchema'', FieldType = TSQLIdentifier, DbTag = Some ''collation_schema''\<rparr>,
     \<lparr>FieldName = ''CollationName'', FieldType = TSQLIdentifier, DbTag = Some ''collation_name''\<rparr>,
     \<lparr>FieldName = ''DomainCatalog'', FieldType = TSQLIdentifier, DbTag = Some ''domain_catalog''\<rparr>,
     \<lparr>FieldName = ''DomainSchema'', FieldType = TSQLIdentifier, DbTag = Some ''domain_schema''\<rparr>,
     \<lparr>FieldName = ''DomainName'', FieldType = TSQLIdentifier, DbTag = Some ''domain_name''\<rparr>,
     \<lparr>FieldName = ''UdtCatalog'', FieldType = TSQLIdentifier, DbTag = Some ''udt_catalog''\<rparr>,
     \<lparr>FieldName = ''UdtSchema'', FieldType = TSQLIdentifier, DbTag = Some ''udt_schema''\<rparr>,
     \<lparr>FieldName = ''UdtName'', FieldType = TSQLIdentifier, DbTag = Some ''udt_name''\<rparr>,
     \<lparr>FieldName = ''ScopeCatalog'', FieldType = TSQLIdentifier, DbTag = Some ''scope_catalog''\<rparr>,
     \<lparr>FieldName = ''ScopeSchema'', FieldType = TSQLIdentifier, DbTag = Some ''scope_schema''\<rparr>,
     \<lparr>FieldName = ''ScopeName'', FieldType = TSQLIdentifier, DbTag = Some ''scope_name''\<rparr>,
     \<lparr>FieldName = ''MaximumCardinality'', FieldType = TCardinalNumber, DbTag = Some ''maximum_cardinality''\<rparr>,
     \<lparr>FieldName = ''DtdIdentifier'', FieldType = TSQLIdentifier, DbTag = Some ''dtd_identifier''\<rparr>,
     \<lparr>FieldName = ''IsSelfReferencing'', FieldType = TYesOrNo, DbTag = Some ''is_self_referencing''\<rparr>,
     \<lparr>FieldName = ''IsIdentity'', FieldType = TYesOrNo, DbTag = Some ''is_identity''\<rparr>,
     \<lparr>FieldName = ''IdentityGeneration'', FieldType = TCharacterData, DbTag = Some ''identity_generation''\<rparr>,
     \<lparr>FieldName = ''IdentityStart'', FieldType = TCharacterData, DbTag = Some ''identity_start''\<rparr>,
     \<lparr>FieldName = ''IdentityIncrement'', FieldType = TCharacterData, DbTag = Some ''identity_increment''\<rparr>,
     \<lparr>FieldName = ''IdentityMaximum'', FieldType = TCharacterData, DbTag = Some ''identity_maximum''\<rparr>,
     \<lparr>FieldName = ''IdentityMinimum'', FieldType = TCharacterData, DbTag = Some ''identity_minimum''\<rparr>,
     \<lparr>FieldName = ''IdentityCycle'', FieldType = TYesOrNo, DbTag = Some ''identity_cycle''\<rparr>,
     \<lparr>FieldName = ''IsGenerated'', FieldType = TCharacterData, DbTag = Some ''is_generated''\<rparr>,
     \<lparr>FieldName = ''GenerationExpression'', FieldType = TCharacterData, DbTag = Some ''generation_expression''\<rparr>,
     \<lparr>FieldName = ''IsUpdatable'', FieldType = TYesOrNo, DbTag = Some ''is_updatable''\<rparr>]"

section \<open>The catalog and the queries\<close>

text \<open>
  A Go \<^verbatim>\<open>error\<close> value: the library's \<^verbatim>\<open>dbr.ErrNotFound\<close>, or any other error with
  its message.
\<close>

datatype error = ErrNotFound | Err string

datatype View = CatalogNameView | SchemataView | TablesView | ColumnsView

text \<open>
  The database the program talks to: which connection strings \<^verbatim>\<open>dbr.Open\<close> rejects,
  which of the four queries fail, and the rows of the four views.
\<close>

record Database =
  open_err :: "string \<Rightarrow> error option"
  query_err :: "View \<Rightarrow> error option"
  catalog_name_view :: "string list"
  schemata_view :: "TSchemata list"
  tables_view :: "TTables list"
  columns_view :: "TColumns list"

definition dbr_Open :: "Database \<Rightarrow> string \<Rightarrow> error option" where
  "dbr_Open db connStr = open_err db connStr"

text \<open>
  Modelled from the spec: the evaluation of \<^verbatim>\<open>WHERE schema_name IN ?\<close> (and of
  \<^verbatim>\<open>WHERE table_schema IN ?\<close>) by the database server, which is not part of the
  program. The spec's words are "exact-string, case-sensitive, no wildcards": the
  column is compared for equality with each element of the bound list. A NULL column
  makes the predicate unknown, so the row is not selected.
\<close>

definition sql_IN :: "NullString \<Rightarrow> string list \<Rightarrow> bool" where
  "sql_IN x ws = (NullString.Valid x \<and> String x \<in> set ws)"

definition catalog_name_sql :: string where
  "catalog_name_sql = ''SELECT * FROM information_schema.information_schema_catalog_name''"

definition schemata_sql :: string where
  "schemata_sql = ''SELECT * FROM information_schema.schemata WHERE schema_name IN ?''"

definition tables_sql :: string where
  "tables_sql = ''SELECT * FROM information_schema.tables WHERE table_schema IN ?''"

definition columns_sql :: string where
  "columns_sql = ''SELECT * FROM information_schema.columns WHERE table_schema IN ?''"

text \<open>
  \<^verbatim>\<open>LoadOne(&dbName)\<close> on the catalog-name view: the query's error, or
  \<^verbatim>\<open>dbr.ErrNotFound\<close> when no row comes back, or the first row.
\<close>

definition LoadOne :: "Database \<Rightarrow> error + string" where
  "LoadOne db =
     (case query_err db CatalogNameView of
        Some err \<Rightarrow> Inl err
      | None \<Rightarrow> (case catalog_name_view db of [] \<Rightarrow> Inl ErrNotFound | x # _ \<Rightarrow> Inr x))"

text \<open>
  \<^verbatim>\<open>SelectBySql(..., schemaWhitelist).Load(&rows)\<close> on each of the three views: the
  query's error, or the selected rows in the view's order. The count \<open>n\<close> that
  \<^verbatim>\<open>Load\<close> returns next to the error is the number of rows loaded.
\<close>

definition Load_schemata :: "Database \<Rightarrow> string list \<Rightarrow> error + TSchemata list" where
  "Load_schemata db whitelist =
     (case query_err db SchemataView of
        Some err \<Rightarrow> Inl err
      | None \<Rightarrow> Inr (filter (\<lambda>r. sql_IN (SchemaName r) whitelist) (schemata_view db)))"

definition Load_tables :: "Database \<Rightarrow> string list \<Rightarrow> error + TTables list" where
  "Load_tables db whitelist =
     (case query_err db TablesView of
        Some err \<Rightarrow> Inl err
      | None \<Rightarrow> Inr (filter (\<lambda>r. sql_IN (TTables.TableSchema r) whitelist) (tables_view db)))"

definition Load_columns :: "Database \<Rightarrow> string list \<Rightarrow> error + TColumns list" where
  "Load_columns db whitelist =
     (case query_err db ColumnsView of
        Some err \<Rightarrow> Inl err
      | None \<Rightarrow> Inr (filter (\<lambda>r. sql_IN (TColumns.TableSchema r) whitelist) (columns_view db)))"

section \<open>The logger\<close>

text \<open>
  The levels of the logging library, most severe first. A logger writes a call made at
  level \<open>l\<close> when \<open>l\<close> is at most as verbose as the logger's own level. \<^verbatim>\<open>logrus.New()\<close>
  makes a logger at \<open>InfoLevel\<close>; the program sets the formatter of its logger and never
  its level.
\<close>

datatype Level = PanicLevel | FatalLevel | ErrorLevel | WarnLevel | InfoLevel | DebugLevel

fun level_num :: "Level \<Rightarrow> nat" where
  "level_num PanicLevel = 0"
| "level_num FatalLevel = 1"
| "level_num ErrorLevel = 2"
| "level_num WarnLevel = 3"
| "level_num InfoLevel = 4"
| "level_num DebugLevel = 5"

record Logger =
  LoggerLevel :: Level

definition logrus_New :: Logger where
  "logrus_New = \<lparr>LoggerLevel = InfoLevel\<rparr>"

section \<open>The pipeline\<close>

text \<open>
  What a run does that the outside can see, in order: opening the connection, closing
  it, issuing a query (its text and its bound list), and a call of the logger (level,
  message, and the error attached by \<^verbatim>\<open>WithError\<close>). A run ends when \<open>main\<close> returns or
  when \<^verbatim>\<open>os.Exit\<close> is called, which \<^verbatim>\<open>Fatal\<close> does with code 1 after logging.
\<close>

datatype Event =
    Open string string
  | Close
  | Query string "string list"
  | Log Level string "error option"

datatype Outcome = Returned | OsExit int

type_synonym Run = "Event list \<times> Outcome"

definition emit :: "Event list \<Rightarrow> Run \<Rightarrow> Run" where
  "emit evs run = (evs @ fst run, snd run)"

definition Fatal :: "string \<Rightarrow> error \<Rightarrow> Run" where
  "Fatal msg err = ([Log FatalLevel msg (Some err)], OsExit 1)"

definition Warn_return :: "string \<Rightarrow> Run" where
  "Warn_return msg = ([Log WarnLevel msg None], Returned)"

text \<open>
  \<^verbatim>\<open>defer dbConn.Close()\<close>: the call runs when the function returns. \<^verbatim>\<open>os.Exit\<close> ends
  the process at once and runs no deferred call.
\<close>

fun deferred :: "Event \<Rightarrow> Run \<Rightarrow> Run" where
  "deferred d (evs, Returned) = (evs @ [d], Returned)"
| "deferred d (evs, OsExit c) = (evs, OsExit c)"

definition schemaWhitelist :: "string list" where
  "schemaWhitelist = [''swipe'']"

definition schema_line :: "TSchemata \<Rightarrow> string" where
  "schema_line v = ''schema '' @ String (SchemaName v) @ '' owned by '' @ String (SchemaOwner v)"

definition table_line :: "TTables \<Rightarrow> string" where
  "table_line v =
     ''table '' @ String (TTables.TableSchema v) @ ''.'' @ String (TTables.TableName v)
       @ '' type '' @ String (TableType v)"

definition column_line :: "TColumns \<Rightarrow> string" where
  "column_line v =
     ''column '' @ String (TColumns.TableSchema v) @ ''.'' @ String (TColumns.TableName v)
       @ ''.'' @ String (ColumnName v)"

definition Debugf :: "string \<Rightarrow> Event" where
  "Debugf msg = Log DebugLevel msg None"

text \<open>
  The body of \<open>main\<close> below \<^verbatim>\<open>defer dbConn.Close()\<close>, one stage after the other. The
  loops over the loaded rows are the \<open>map\<close>s.
\<close>

definition columns_stage :: "Database \<Rightarrow> Run" where
  "columns_stage db =
     emit [Query columns_sql schemaWhitelist]
       (case Load_columns db schemaWhitelist of
          Inl err \<Rightarrow> Fatal ''select columns'' err
        | Inr columns \<Rightarrow>
            if length columns = 0 then Warn_return ''no columns available''
            else (map (\<lambda>v. Debugf (column_line v)) columns, Returned))"

definition tables_stage :: "Database \<Rightarrow> Run" where
  "tables_stage db =
     emit [Query tables_sql schemaWhitelist]
       (case Load_tables db schemaWhitelist of
          Inl err \<Rightarrow> Fatal ''select tables'' err
        | Inr tables \<Rightarrow>
            if length tables = 0 then Warn_return ''no tables available''
            else emit (map (\<lambda>v. Debugf (table_line v)) tables) (columns_stage db))"

definition schemas_stage :: "Database \<Rightarrow> Run" where
  "schemas_stage db =
     emit [Query schemata_sql schemaWhitelist]
       (case Load_schemata db schemaWhitelist of
          Inl err \<Rightarrow> Fatal ''select schemas'' err
        | Inr schemas \<Rightarrow>
            if length schemas = 0 then Warn_return ''no schemas available''
            else emit (map (\<lambda>v. Debugf (schema_line v)) schemas) (tables_stage db))"

definition session :: "Database \<Rightarrow> Run" where
  "session db =
     emit [Query catalog_name_sql []]
       (case LoadOne db of
          Inl err \<Rightarrow> Fatal ''load database name'' err
        | Inr dbName \<Rightarrow>
            emit [Log InfoLevel (''db name: '' @ dbName) None] (schemas_stage db))"

text \<open>
  \<^verbatim>\<open>flag.String("db", "", ...)\<close> after \<^verbatim>\<open>flag.Parse()\<close>: the value given on the command
  line, the default empty string when the flag is absent. The command line is the
  value of the flag, if any.
\<close>

definition flag_String :: "string option \<Rightarrow> string" where
  "flag_String db_flag = (case db_flag of None \<Rightarrow> [] | Some s \<Rightarrow> s)"

definition main :: "string option \<Rightarrow> Database \<Rightarrow> Run" where
  "main db_flag db =
     (let connStr = flag_String db_flag in
      emit [Open ''postgres'' connStr]
        (case dbr_Open db connStr of
           Some err \<Rightarrow> Fatal ''Cannot connect to db'' err
         | None \<Rightarrow> deferred Close (session db)))"

text \<open>The lines the logger of \<open>main\<close> writes: the calls its level lets through.\<close>

fun written :: "Logger \<Rightarrow> Event \<Rightarrow> bool" where
  "written lg (Log l msg err) = (level_num l \<le> level_num (LoggerLevel lg))"
| "written lg _ = False"

definition log_output :: "string option \<Rightarrow> Database \<Rightarrow> Event list" where
  "log_output db_flag db = filter (written logrus_New) (fst (main db_flag db))"

fun is_Query :: "Event \<Rightarrow> bool" where
  "is_Query (Query q args) = True"
| "is_Query _ = False"

section \<open>Decoding a driver value\<close>

text \<open>
  Modelled from the spec: the decoding of a driver-native nullable value into each of
  the five nullable domain types (the \<^verbatim>\<open>Scan\<close> methods of the library structs, which are
  not part of the program). The spec's words: each wrapper exposes the decoded payload
  and a boolean signalling whether the source value was SQL NULL, and decoding
  preserves NULL. \<open>None\<close> is SQL NULL; the payload of a NULL is the zero value of
  its type.
\<close>

definition decode_CardinalNumber :: "int64 option \<Rightarrow> CardinalNumber" where
  "decode_CardinalNumber src =
     (case src of None \<Rightarrow> \<lparr>Int64 = 0, Valid = False\<rparr> | Some v \<Rightarrow> \<lparr>Int64 = v, Valid = True\<rparr>)"

definition decode_CharacterData :: "string option \<Rightarrow> CharacterData" where
  "decode_CharacterData src =
     (case src of None \<Rightarrow> \<lparr>String = [], Valid = False\<rparr> | Some v \<Rightarrow> \<lparr>String = v, Valid = True\<rparr>)"

definition decode_SQLIdentifier :: "string option \<Rightarrow> SQLIdentifier" where
  "decode_SQLIdentifier src =
     (case src of None \<Rightarrow> \<lparr>String = [], Valid = False\<rparr> | Some v \<Rightarrow> \<lparr>String = v, Valid = True\<rparr>)"

definition decode_TimeStamp :: "Time option \<Rightarrow> TimeStamp" where
  "decode_TimeStamp src =
     (case src of None \<Rightarrow> \<lparr>Time = 0, Valid = False\<rparr> | Some v \<Rightarrow> \<lparr>Time = v, Valid = True\<rparr>)"

definition decode_YesOrNo :: "string option \<Rightarrow> YesOrNo" where
  "decode_YesOrNo src =
     (case src of None \<Rightarrow> \<lparr>String = [], Valid = False\<rparr> | Some v \<Rightarrow> \<lparr>String = v, Valid = True\<rparr>)"

definition IsNull_Int64 :: "NullInt64 \<Rightarrow> bool" where
  "IsNull_Int64 x = (\<not> NullInt64.Valid x)"

definition IsNull_String :: "NullString \<Rightarrow> bool" where
  "IsNull_String x = (\<not> NullString.Valid x)"

definition IsNull_Time :: "NullTime \<Rightarrow> bool" where
  "IsNull_Time x = (\<not> NullTime.Valid x)"

section \<open>Ordinal positions\<close>

text \<open>
  The rows of a column list that share the (catalog, schema, table) key of a row, their
  ordinal positions, the property of one such group that its positions are exactly
  \<open>1, ..., N\<close>, each once, for the \<open>N\<close> rows of the group, and the property of a
  list that every group of it is so.
\<close>

definition same_table :: "TColumns \<Rightarrow> TColumns \<Rightarrow> bool" where
  "same_table r x =
     (TColumns.TableCatalog x = TColumns.TableCatalog r
      \<and> TColumns.TableSchema x = TColumns.TableSchema r
      \<and> TColumns.TableName x = TColumns.TableName r)"

definition positions :: "TColumns list \<Rightarrow> TColumns \<Rightarrow> nat list" where
  "positions rows r = map (\<lambda>x. unat (Int64 (OrdinalPosition x))) (filter (same_table r) rows)"

definition table_contiguous :: "TColumns list \<Rightarrow> TColumns \<Rightarrow> bool" where
  "table_contiguous rows r = (sort (positions rows r) = [1 ..< Suc (length (positions rows r))])"

definition ordinals_contiguous :: "TColumns list \<Rightarrow> bool" where
  "ordinals_contiguous rows = list_all (table_contiguous rows) rows"

section \<open>Example catalogs\<close>

definition null_string :: NullString where
  "null_string = \<lparr>String = [], Valid = False\<rparr>"

definition text_value :: "string \<Rightarrow> NullString" where
  "text_value s = \<lparr>String = s, Valid = True\<rparr>"

definition null_number :: NullInt64 where
  "null_number = \<lparr>Int64 = 0, Valid = False\<rparr>"

definition number_value :: "int64 \<Rightarrow> NullInt64" where
  "number_value n = \<lparr>Int64 = n, Valid = True\<rparr>"

definition schema_row :: "string \<Rightarrow> string \<Rightarrow> TSchemata" where
  "schema_row name owner =
     \<lparr>CatalogName = text_value ''app'', SchemaName = text_value name,
      SchemaOwner = text_value owner, DefaultCharacterSetCatalog = null_string,
      DefaultCharacterSetSchema = null_string, DefaultCharacterSetName = null_string,
      SQLPath = null_string\<rparr>"

definition table_row :: "string \<Rightarrow> string \<Rightarrow> string \<Rightarrow> TTables" where
  "table_row schema name kind =
     \<lparr>TTables.TableCatalog = text_value ''app'', TTables.TableSchema = text_value schema,
      TTables.TableName = text_value name, TableType = text_value kind,
      SelfReferencingColumnName = null_string, ReferenceGeneration = null_string,
      UserDefinedTypeCatalog = null_string, UserDefinedTypeSchema = null_string,
      UserDefinedTypeName = null_string, IsInsertableInto = text_value ''YES'',
      IsTyped = text_value ''NO'', CommitAction = null_string\<rparr>"

definition column_row :: "string \<Rightarrow> string \<Rightarrow> string \<Rightarrow> int64 \<Rightarrow> string \<Rightarrow> string \<Rightarrow> TColumns" where
  "column_row schema table name pos nullable dtype =
     \<lparr>TColumns.TableCatalog = text_value ''app'', TColumns.TableSchema = text_value schema,
      TColumns.TableName = text_value table, ColumnName = text_value name,
      OrdinalPosition = number_value pos, ColumnDefault = null_string,
      IsNullable = text_value nullable, DataType = text_value dtype,
      CharacterMaximumLength = null_number, CharacterOctetLength = null_number,
      NumericPrecision = null_number, NumericPrecisionRadix = null_number,
      NumericScale = null_number, DatetimePrecision = null_number,
      IntervalType = null_string, IntervalPrecision = null_number,
      CharacterSetCatalog = null_string, CharacterSetSchema = null_string,
      CharacterSetName = null_string, CollationCatalog = null_string,
      CollationSchema = null_string, CollationName = null_string,
      DomainCatalog = null_string, DomainSchema = null_string, DomainName = null_string,
      UdtCatalog = text_value ''app'', UdtSchema = text_value ''pg_catalog'',
      UdtName = text_value dtype, ScopeCatalog = null_string, ScopeSchema = null_string,
      ScopeName = null_string, MaximumCardinality = null_number,
      DtdIdentifier = text_value name, IsSelfReferencing = text_value ''NO'',
      IsIdentity = text_value ''NO'', IdentityGeneration = null_string,
      IdentityStart = null_string, IdentityIncrement = null_string,
      IdentityMaximum = null_string, IdentityMinimum = null_string,
      IdentityCycle = text_value ''NO'', IsGenerated = text_value ''NEVER'',
      GenerationExpression = null_string, IsUpdatable = text_value ''YES''\<rparr>"

text \<open>
  A catalog \<open>app\<close> with the schemas \<open>swipe\<close>, \<open>swipe2\<close> and \<open>Swipe\<close>; \<open>swipe\<close> holds the
  table \<open>users(id integer not null, name text)\<close>, \<open>swipe2\<close> a table \<open>log\<close>.
\<close>

definition users_db :: Database where
  "users_db =
     \<lparr>open_err = (\<lambda>connStr. None), query_err = (\<lambda>view. None),
      catalog_name_view = [''app''],
      schemata_view = [schema_row ''swipe'' ''postgres'', schema_row ''swipe2'' ''postgres'',
                       schema_row ''Swipe'' ''postgres''],
      tables_view = [table_row ''swipe'' ''users'' ''BASE TABLE'',
                     table_row ''swipe2'' ''log'' ''BASE TABLE''],
      columns_view = [column_row ''swipe'' ''users'' ''id'' 1 ''NO'' ''integer'',
                      column_row ''swipe'' ''users'' ''name'' 2 ''YES'' ''text'',
                      column_row ''swipe2'' ''log'' ''line'' 1 ''YES'' ''text'']\<rparr>"

text \<open>The same catalog where one of the four queries fails.\<close>

definition failing :: "View \<Rightarrow> Database" where
  "failing view =
     users_db\<lparr>query_err := (\<lambda>v. if v = view then Some (Err ''permission denied'') else None)\<rparr>"

text \<open>The same catalog seen without the schema, without its table, without its columns.\<close>

definition no_schemas_db :: Database where
  "no_schemas_db = users_db\<lparr>schemata_view := [schema_row ''public'' ''postgres'']\<rparr>"

definition no_tables_db :: Database where
  "no_tables_db = users_db\<lparr>tables_view := [table_row ''swipe2'' ''log'' ''BASE TABLE'']\<rparr>"

definition no_columns_db :: Database where
  "no_columns_db = users_db\<lparr>columns_view := []\<rparr>"

text \<open>
  The catalog after \<^verbatim>\<open>ALTER TABLE swipe.users ADD COLUMN email text\<close> and
  \<^verbatim>\<open>ALTER TABLE swipe.users DROP COLUMN name\<close>: the position of a dropped column is
  not given to another column.
\<close>

definition dropped_column_db :: Database where
  "dropped_column_db =
     users_db\<lparr>columns_view := [column_row ''swipe'' ''users'' ''id'' 1 ''NO'' ''integer'',
                               column_row ''swipe'' ''users'' ''email'' 3 ''YES'' ''text'']\<rparr>"

text \<open>A server that rejects every connection string.\<close>

definition unreachable_db :: Database where
  "unreachable_db = users_db\<lparr>open_err := (\<lambda>connStr. Some (Err ''connection refused''))\<rparr>"

section \<open>Auxiliary facts\<close>

lemma emit_pair: "emit evs (es, out) = (evs @ es, out)"
  by (simp add: emit_def)

lemma fst_emit: "fst (emit evs run) = evs @ fst run"
  by (simp add: emit_def)

lemma snd_emit: "snd (emit evs run) = snd run"
  by (simp add: emit_def)

lemma queries_of_Debugf: "filter is_Query (map (\<lambda>v. Debugf (f v)) rows) = []"
  by (induction rows) (simp_all add: Debugf_def)


subsection \<open>The shape of a stage\<close>

lemma columns_stage_err:
  "Load_columns db schemaWhitelist = Inl err \<Longrightarrow>
   columns_stage db =
     ([Query columns_sql schemaWhitelist, Log FatalLevel ''select columns'' (Some err)], OsExit 1)"
  by (simp add: columns_stage_def emit_pair Fatal_def)

lemma columns_stage_empty:
  "Load_columns db schemaWhitelist = Inr [] \<Longrightarrow>
   columns_stage db =
     ([Query columns_sql schemaWhitelist, Log WarnLevel ''no columns available'' None], Returned)"
  by (simp add: columns_stage_def emit_pair Warn_return_def)

lemma columns_stage_rows:
  "Load_columns db schemaWhitelist = Inr columns \<Longrightarrow> columns \<noteq> [] \<Longrightarrow>
   columns_stage db =
     (Query columns_sql schemaWhitelist # map (\<lambda>v. Debugf (column_line v)) columns, Returned)"
  by (simp add: columns_stage_def emit_pair)

lemma tables_stage_err:
  "Load_tables db schemaWhitelist = Inl err \<Longrightarrow>
   tables_stage db =
     ([Query tables_sql schemaWhitelist, Log FatalLevel ''select tables'' (Some err)], OsExit 1)"
  by (simp add: tables_stage_def emit_pair Fatal_def)

lemma tables_stage_empty:
  "Load_tables db schemaWhitelist = Inr [] \<Longrightarrow>
   tables_stage db =
     ([Query tables_sql schemaWhitelist, Log WarnLevel ''no tables available'' None], Returned)"
  by (simp add: tables_stage_def emit_pair Warn_return_def)

lemma tables_stage_rows:
  "Load_tables db schemaWhitelist = Inr tables \<Longrightarrow> tables \<noteq> [] \<Longrightarrow>
   tables_stage db =
     emit (Query tables_sql schemaWhitelist # map (\<lambda>v. Debugf (table_line v)) tables)
       (columns_stage db)"
  by (simp add: tables_stage_def emit_def)

lemma schemas_stage_err:
  "Load_schemata db schemaWhitelist = Inl err \<Longrightarrow>
   schemas_stage db =
     ([Query schemata_sql schemaWhitelist, Log FatalLevel ''select schemas'' (Some err)], OsExit 1)"
  by (simp add: schemas_stage_def emit_pair Fatal_def)

lemma schemas_stage_empty:
  "Load_schemata db schemaWhitelist = Inr [] \<Longrightarrow>
   schemas_stage db =
     ([Query schemata_sql schemaWhitelist, Log WarnLevel ''no schemas available'' None], Returned)"
  by (simp add: schemas_stage_def emit_pair Warn_return_def)

lemma schemas_stage_rows:
  "Load_schemata db schemaWhitelist = Inr schemas \<Longrightarrow> schemas \<noteq> [] \<Longrightarrow>
   schemas_stage db =
     emit (Query schemata_sql schemaWhitelist # map (\<lambda>v. Debugf (schema_line v)) schemas)
       (tables_stage db)"
  by (simp add: schemas_stage_def emit_def)

lemma session_err:
  "LoadOne db = Inl err \<Longrightarrow>
   session db =
     ([Query catalog_name_sql [], Log FatalLevel ''load database name'' (Some err)], OsExit 1)"
  by (simp add: session_def emit_pair Fatal_def)

lemma session_ok:
  "LoadOne db = Inr dbName \<Longrightarrow>
   session db =
     emit [Query catalog_name_sql [], Log InfoLevel (''db name: '' @ dbName) None]
       (schemas_stage db)"
  by (simp add: session_def emit_def)

lemma main_open_err:
  "dbr_Open db (flag_String db_flag) = Some err \<Longrightarrow>
   main db_flag db =
     ([Open ''postgres'' (flag_String db_flag),
       Log FatalLevel ''Cannot connect to db'' (Some err)], OsExit 1)"
  by (simp add: main_def emit_pair Fatal_def)

lemma main_open_ok:
  "dbr_Open db (flag_String db_flag) = None \<Longrightarrow>
   main db_flag db = emit [Open ''postgres'' (flag_String db_flag)] (deferred Close (session db))"
  by (simp add: main_def)

subsection \<open>The example catalogs\<close>

lemma schema_row_sel:
  "String (SchemaName (schema_row n ow)) = n"
  "NullString.Valid (SchemaName (schema_row n ow))"
  "String (SchemaOwner (schema_row n ow)) = ow"
  by (simp_all add: schema_row_def text_value_def)

lemma table_row_sel:
  "String (TTables.TableSchema (table_row s n k)) = s"
  "NullString.Valid (TTables.TableSchema (table_row s n k))"
  "String (TTables.TableName (table_row s n k)) = n"
  "String (TableType (table_row s n k)) = k"
  by (simp_all add: table_row_def text_value_def)

lemma column_row_sel:
  "String (TColumns.TableSchema (column_row s t n p nl d)) = s"
  "NullString.Valid (TColumns.TableSchema (column_row s t n p nl d))"
  "String (TColumns.TableName (column_row s t n p nl d)) = t"
  "String (ColumnName (column_row s t n p nl d)) = n"
  "Int64 (OrdinalPosition (column_row s t n p nl d)) = p"
  by (simp_all add: column_row_def text_value_def number_value_def)

lemma Load_users_schemata:
  "Load_schemata users_db schemaWhitelist = Inr [schema_row ''swipe'' ''postgres'']"
  by (simp add: Load_schemata_def users_db_def schemaWhitelist_def sql_IN_def schema_row_sel)

lemma Load_users_tables:
  "Load_tables users_db schemaWhitelist = Inr [table_row ''swipe'' ''users'' ''BASE TABLE'']"
  by (simp add: Load_tables_def users_db_def schemaWhitelist_def sql_IN_def table_row_sel)

lemma Load_users_columns:
  "Load_columns users_db schemaWhitelist =
     Inr [column_row ''swipe'' ''users'' ''id'' 1 ''NO'' ''integer'',
          column_row ''swipe'' ''users'' ''name'' 2 ''YES'' ''text'']"
  by (simp add: Load_columns_def users_db_def schemaWhitelist_def sql_IN_def column_row_sel)

lemma users_db_sel:
  "dbr_Open users_db connStr = None"
  "LoadOne users_db = Inr ''app''"
  by (simp_all add: dbr_Open_def LoadOne_def users_db_def)

lemma columns_stage_users:
  "columns_stage users_db =
     ([Query columns_sql schemaWhitelist,
       Log DebugLevel ''column swipe.users.id'' None,
       Log DebugLevel ''column swipe.users.name'' None], Returned)"
  by (simp add: columns_stage_def Load_users_columns emit_pair Debugf_def column_line_def
      column_row_sel)

lemma tables_stage_users:
  "tables_stage users_db =
     ([Query tables_sql schemaWhitelist,
       Log DebugLevel ''table swipe.users type BASE TABLE'' None,
       Query columns_sql schemaWhitelist,
       Log DebugLevel ''column swipe.users.id'' None,
       Log DebugLevel ''column swipe.users.name'' None], Returned)"
  by (simp add: tables_stage_def Load_users_tables columns_stage_users emit_pair Debugf_def
      table_line_def table_row_sel)

lemma schemas_stage_users:
  "schemas_stage users_db =
     ([Query schemata_sql schemaWhitelist,
       Log DebugLevel ''schema swipe owned by postgres'' None,
       Query tables_sql schemaWhitelist,
       Log DebugLevel ''table swipe.users type BASE TABLE'' None,
       Query columns_sql schemaWhitelist,
       Log DebugLevel ''column swipe.users.id'' None,
       Log DebugLevel ''column swipe.users.name'' None], Returned)"
  by (simp add: schemas_stage_def Load_users_schemata tables_stage_users emit_pair Debugf_def
      schema_line_def schema_row_sel)

lemma main_users:
  "main None users_db =
     ([Open ''postgres'' [], Query catalog_name_sql [],
       Log InfoLevel ''db name: app'' None,
       Query schemata_sql schemaWhitelist,
       Log DebugLevel ''schema swipe owned by postgres'' None,
       Query tables_sql schemaWhitelist,
       Log DebugLevel ''table swipe.users type BASE TABLE'' None,
       Query columns_sql schemaWhitelist,
       Log DebugLevel ''column swipe.users.id'' None,
       Log DebugLevel ''column swipe.users.name'' None,
       Close], Returned)"
  by (simp add: main_def session_def schemas_stage_users users_db_sel emit_pair
      flag_String_def)

lemma failing_sel:
  "dbr_Open (failing view) connStr = None"
  "LoadOne (failing SchemataView) = Inr ''app''"
  "Load_schemata (failing SchemataView) whitelist = Inl (Err ''permission denied'')"
  by (simp_all add: failing_def dbr_Open_def LoadOne_def Load_schemata_def users_db_def)

lemma TTables_fields_tagged: "list_all (\<lambda>f. DbTag f \<noteq> None) TTables_fields"
  by (simp add: TTables_fields_def)

lemma TColumns_fields_tagged: "list_all (\<lambda>f. DbTag f \<noteq> None) TColumns_fields"
  by (simp add: TColumns_fields_def)


lemma queries_deferred:
  "filter is_Query (fst (deferred Close run)) = filter is_Query (fst run)"
  by (cases run, cases "snd run") simp_all

lemma queries_columns_stage:
  "filter is_Query (fst (columns_stage db)) = [Query columns_sql schemaWhitelist]"
  by (simp add: columns_stage_def fst_emit Fatal_def Warn_return_def queries_of_Debugf
      split: sum.split)

lemma queries_tables_stage:
  "prefix (filter is_Query (fst (tables_stage db)))
     [Query tables_sql schemaWhitelist, Query columns_sql schemaWhitelist]"
  by (simp add: tables_stage_def fst_emit Fatal_def Warn_return_def queries_of_Debugf
      queries_columns_stage split: sum.split)

lemma queries_schemas_stage:
  "prefix (filter is_Query (fst (schemas_stage db)))
     [Query schemata_sql schemaWhitelist, Query tables_sql schemaWhitelist,
      Query columns_sql schemaWhitelist]"
  by (simp add: schemas_stage_def fst_emit Fatal_def Warn_return_def queries_of_Debugf
      queries_tables_stage split: sum.split)

lemma queries_session:
  "prefix (filter is_Query (fst (session db)))
     [Query catalog_name_sql [], Query schemata_sql schemaWhitelist,
      Query tables_sql schemaWhitelist, Query columns_sql schemaWhitelist]"
  by (simp add: session_def fst_emit Fatal_def queries_schemas_stage split: sum.split)


lemma no_schemas_sel:
  "dbr_Open no_schemas_db connStr = None"
  "LoadOne no_schemas_db = Inr ''app''"
  "Load_schemata no_schemas_db schemaWhitelist = Inr []"
  by (simp_all add: no_schemas_db_def dbr_Open_def LoadOne_def Load_schemata_def users_db_def
      schemaWhitelist_def sql_IN_def schema_row_sel)

lemma no_tables_sel:
  "dbr_Open no_tables_db connStr = None"
  "LoadOne no_tables_db = Inr ''app''"
  "Load_schemata no_tables_db schemaWhitelist = Inr [schema_row ''swipe'' ''postgres'']"
  "Load_tables no_tables_db schemaWhitelist = Inr []"
  by (simp_all add: no_tables_db_def dbr_Open_def LoadOne_def Load_schemata_def Load_tables_def
      users_db_def schemaWhitelist_def sql_IN_def schema_row_sel table_row_sel)

lemma no_columns_sel:
  "dbr_Open no_columns_db connStr = None"
  "LoadOne no_columns_db = Inr ''app''"
  "Load_schemata no_columns_db schemaWhitelist = Inr [schema_row ''swipe'' ''postgres'']"
  "Load_tables no_columns_db schemaWhitelist = Inr [table_row ''swipe'' ''users'' ''BASE TABLE'']"
  "Load_columns no_columns_db schemaWhitelist = Inr []"
  by (simp_all add: no_columns_db_def dbr_Open_def LoadOne_def Load_schemata_def Load_tables_def
      Load_columns_def users_db_def schemaWhitelist_def sql_IN_def schema_row_sel table_row_sel)

lemma sql_texts_distinct:
  "catalog_name_sql \<noteq> tables_sql" "catalog_name_sql \<noteq> columns_sql"
  "schemata_sql \<noteq> tables_sql" "schemata_sql \<noteq> columns_sql"
  "tables_sql \<noteq> columns_sql"
  by (simp_all add: catalog_name_sql_def schemata_sql_def tables_sql_def columns_sql_def)


lemma failing_more_sel:
  "LoadOne (failing CatalogNameView) = Inl (Err ''permission denied'')"
  "LoadOne (failing TablesView) = Inr ''app''"
  "LoadOne (failing ColumnsView) = Inr ''app''"
  "Load_schemata (failing TablesView) schemaWhitelist = Inr [schema_row ''swipe'' ''postgres'']"
  "Load_schemata (failing ColumnsView) schemaWhitelist = Inr [schema_row ''swipe'' ''postgres'']"
  "Load_tables (failing TablesView) schemaWhitelist = Inl (Err ''permission denied'')"
  "Load_tables (failing ColumnsView) schemaWhitelist =
     Inr [table_row ''swipe'' ''users'' ''BASE TABLE'']"
  "Load_columns (failing ColumnsView) schemaWhitelist = Inl (Err ''permission denied'')"
  by (simp_all add: failing_def LoadOne_def Load_schemata_def Load_tables_def Load_columns_def
      users_db_def schemaWhitelist_def sql_IN_def schema_row_sel table_row_sel)

lemma unreachable_sel:
  "dbr_Open unreachable_db connStr = Some (Err ''connection refused'')"
  by (simp add: unreachable_db_def dbr_Open_def)

lemma columns_stage_nonempty: "fst (columns_stage db) \<noteq> []"
  by (simp add: columns_stage_def emit_def)

lemma tables_stage_nonempty: "fst (tables_stage db) \<noteq> []"
  by (simp add: tables_stage_def emit_def)

lemma schemas_stage_nonempty: "fst (schemas_stage db) \<noteq> []"
  by (simp add: schemas_stage_def emit_def)

lemma session_nonempty: "fst (session db) \<noteq> []"
  by (simp add: session_def emit_def)

lemma columns_stage_exit:
  "snd (columns_stage db) = OsExit c \<Longrightarrow>
   c = 1 \<and> (\<exists>e. Load_columns db schemaWhitelist = Inl e
              \<and> last (fst (columns_stage db)) = Log FatalLevel ''select columns'' (Some e))"
  by (auto simp add: columns_stage_def emit_def Fatal_def Warn_return_def
      split: sum.splits if_splits)


lemma tables_stage_exit:
  "snd (tables_stage db) = OsExit c \<Longrightarrow>
   c = 1 \<and> ((\<exists>e. Load_tables db schemaWhitelist = Inl e
               \<and> last (fst (tables_stage db)) = Log FatalLevel ''select tables'' (Some e))
            \<or> (\<exists>e. Load_columns db schemaWhitelist = Inl e
               \<and> last (fst (tables_stage db)) = Log FatalLevel ''select columns'' (Some e)))"
  by (auto simp add: tables_stage_def snd_emit fst_emit columns_stage_nonempty Fatal_def
      Warn_return_def emit_pair dest: columns_stage_exit split: sum.splits if_splits)

lemma schemas_stage_exit:
  "snd (schemas_stage db) = OsExit c \<Longrightarrow>
   c = 1 \<and> ((\<exists>e. Load_schemata db schemaWhitelist = Inl e
               \<and> last (fst (schemas_stage db)) = Log FatalLevel ''select schemas'' (Some e))
            \<or> (\<exists>e. Load_tables db schemaWhitelist = Inl e
               \<and> last (fst (schemas_stage db)) = Log FatalLevel ''select tables'' (Some e))
            \<or> (\<exists>e. Load_columns db schemaWhitelist = Inl e
               \<and> last (fst (schemas_stage db)) = Log FatalLevel ''select columns'' (Some e)))"
  by (auto simp add: schemas_stage_def snd_emit fst_emit tables_stage_nonempty Fatal_def
      Warn_return_def emit_pair dest: tables_stage_exit split: sum.splits if_splits)

lemma session_exit:
  "snd (session db) = OsExit c \<Longrightarrow>
   c = 1 \<and> ((\<exists>e. LoadOne db = Inl e
               \<and> last (fst (session db)) = Log FatalLevel ''load database name'' (Some e))
            \<or> (\<exists>e. Load_schemata db schemaWhitelist = Inl e
               \<and> last (fst (session db)) = Log FatalLevel ''select schemas'' (Some e))
            \<or> (\<exists>e. Load_tables db schemaWhitelist = Inl e
               \<and> last (fst (session db)) = Log FatalLevel ''select tables'' (Some e))
            \<or> (\<exists>e. Load_columns db schemaWhitelist = Inl e
               \<and> last (fst (session db)) = Log FatalLevel ''select columns'' (Some e)))"
  by (auto simp add: session_def snd_emit fst_emit schemas_stage_nonempty Fatal_def
      emit_pair dest: schemas_stage_exit split: sum.splits)

lemma deferred_exit:
  "snd (deferred d run) = OsExit c \<Longrightarrow> deferred d run = run"
  by (cases run, cases "snd run") auto

lemma main_exit:
  assumes "snd (main db_flag db) = OsExit c"
  shows "c = 1
     \<and> ((\<exists>e. dbr_Open db (flag_String db_flag) = Some e
          \<and> last (fst (main db_flag db)) = Log FatalLevel ''Cannot connect to db'' (Some e))
        \<or> (\<exists>e. LoadOne db = Inl e
          \<and> last (fst (main db_flag db)) = Log FatalLevel ''load database name'' (Some e))
        \<or> (\<exists>e. Load_schemata db schemaWhitelist = Inl e
          \<and> last (fst (main db_flag db)) = Log FatalLevel ''select schemas'' (Some e))
        \<or> (\<exists>e. Load_tables db schemaWhitelist = Inl e
          \<and> last (fst (main db_flag db)) = Log FatalLevel ''select tables'' (Some e))
        \<or> (\<exists>e. Load_columns db schemaWhitelist = Inl e
          \<and> last (fst (main db_flag db)) = Log FatalLevel ''select columns'' (Some e)))"
proof (cases "dbr_Open db (flag_String db_flag)")
  case (Some err)
  with assms show ?thesis by (simp add: main_open_err [OF Some])
next
  case None
  from assms have x: "snd (deferred Close (session db)) = OsExit c"
    by (simp add: main_open_ok [OF None] snd_emit)
  then have d: "deferred Close (session db) = session db" by (rule deferred_exit)
  from x d have "snd (session db) = OsExit c" by simp
  from session_exit [OF this] show ?thesis
    by (simp add: main_open_ok [OF None] fst_emit session_nonempty d)
qed



lemma written_Debugf: "filter (written logrus_New) (map (\<lambda>v. Log DebugLevel (f v) None) rows) = []"
  by (induction rows) (simp_all add: logrus_New_def)


lemma column_row_key:
  "TColumns.TableCatalog (column_row s t n p nl d) = text_value ''app''"
  "TColumns.TableSchema (column_row s t n p nl d) = text_value s"
  "TColumns.TableName (column_row s t n p nl d) = text_value t"
  by (simp_all add: column_row_def)

lemma text_value_eq: "(text_value a = text_value b) = (a = b)"
  by (simp add: text_value_def)

lemma Load_dropped_columns:
  "Load_columns dropped_column_db schemaWhitelist =
     Inr [column_row ''swipe'' ''users'' ''id'' 1 ''NO'' ''integer'',
          column_row ''swipe'' ''users'' ''email'' 3 ''YES'' ''text'']"
  by (simp add: Load_columns_def dropped_column_db_def users_db_def schemaWhitelist_def
      sql_IN_def column_row_sel)

lemma same_table_filter:
  assumes "sql_IN (TColumns.TableSchema r) whitelist"
  shows "filter (same_table r) (filter (\<lambda>x. sql_IN (TColumns.TableSchema x) whitelist) rows)
         = filter (same_table r) rows"
proof -
  have "same_table r x \<Longrightarrow> sql_IN (TColumns.TableSchema x) whitelist" for x
    using assms by (simp add: same_table_def)
  then show ?thesis
    by (induction rows) auto
qed

lemma set_schemaWhitelist: "set schemaWhitelist = {''swipe''}"
  by (simp add: schemaWhitelist_def)

lemma users_schemata_view:
  "schemata_view users_db =
     [schema_row ''swipe'' ''postgres'', schema_row ''swipe2'' ''postgres'',
      schema_row ''Swipe'' ''postgres'']"
  by (simp add: users_db_def)

lemma positions_filter:
  "sql_IN (TColumns.TableSchema r) whitelist \<Longrightarrow>
   positions (filter (\<lambda>x. sql_IN (TColumns.TableSchema x) whitelist) rows) r = positions rows r"
  by (simp only: positions_def same_table_filter)

lemma users_columns_view:
  "columns_view users_db =
     [column_row ''swipe'' ''users'' ''id'' 1 ''NO'' ''integer'',
      column_row ''swipe'' ''users'' ''name'' 2 ''YES'' ''text'',
      column_row ''swipe2'' ''log'' ''line'' 1 ''YES'' ''text'']"
  by (simp add: users_db_def)

section \<open>The claims\<close>

text \<open>
  C3. Decoding SQL NULL into any of the five nullable domain types gives a value that
  reports null, decoding a value gives one that reports non-null, and a decoded NULL
  is never equal to a decoded value, the zero value of the type included.
\<close>

theorem decode_preserves_null:
  "IsNull_Int64 (decode_CardinalNumber None)
   \<and> (\<forall>v. \<not> IsNull_Int64 (decode_CardinalNumber (Some v)))
   \<and> IsNull_String (decode_CharacterData None)
   \<and> (\<forall>v. \<not> IsNull_String (decode_CharacterData (Some v)))
   \<and> IsNull_String (decode_SQLIdentifier None)
   \<and> (\<forall>v. \<not> IsNull_String (decode_SQLIdentifier (Some v)))
   \<and> IsNull_Time (decode_TimeStamp None)
   \<and> (\<forall>v. \<not> IsNull_Time (decode_TimeStamp (Some v)))
   \<and> IsNull_String (decode_YesOrNo None)
   \<and> (\<forall>v. \<not> IsNull_String (decode_YesOrNo (Some v)))
   \<and> (\<forall>v. decode_CardinalNumber None \<noteq> decode_CardinalNumber (Some v))
   \<and> (\<forall>v. decode_CharacterData None \<noteq> decode_CharacterData (Some v))
   \<and> (\<forall>v. decode_SQLIdentifier None \<noteq> decode_SQLIdentifier (Some v))
   \<and> (\<forall>v. decode_TimeStamp None \<noteq> decode_TimeStamp (Some v))
   \<and> (\<forall>v. decode_YesOrNo None \<noteq> decode_YesOrNo (Some v))"
  by (simp add: IsNull_Int64_def IsNull_String_def IsNull_Time_def decode_CardinalNumber_def
      decode_CharacterData_def decode_SQLIdentifier_def decode_TimeStamp_def decode_YesOrNo_def)

text \<open>
  C6. The claim: on every exit path the connection is closed before the process exits.
  The run in which the query on the schemata view fails: the connection has been
  opened, \<^verbatim>\<open>Fatal\<close> logs the error and exits with code 1, and the deferred
  \<^verbatim>\<open>Close\<close> is never called.
\<close>

theorem fatal_exit_skips_Close:
  "main None (failing SchemataView) =
     ([Open ''postgres'' [], Query catalog_name_sql [],
       Log InfoLevel ''db name: app'' None,
       Query schemata_sql schemaWhitelist,
       Log FatalLevel ''select schemas'' (Some (Err ''permission denied''))], OsExit 1)
   \<and> Close \<notin> set (fst (main None (failing SchemataView)))"
  by (simp add: main_open_ok [where db_flag = None] failing_sel session_ok schemas_stage_err
      emit_pair flag_String_def)

text \<open>
  C7. The claim: every field of the three record types carries a column-name tag.
  In \<open>TSchemata\<close> only \<open>CatalogName\<close> does; the six fields from \<open>SchemaName\<close> to
  \<open>SQLPath\<close> are declared without a tag.
\<close>

theorem TSchemata_fields_untagged:
  "map (\<lambda>f. (FieldName f, DbTag f)) TSchemata_fields =
     [(''CatalogName'', Some ''catalog_name''), (''SchemaName'', None),
      (''SchemaOwner'', None), (''DefaultCharacterSetCatalog'', None),
      (''DefaultCharacterSetSchema'', None), (''DefaultCharacterSetName'', None),
      (''SQLPath'', None)]"
  by (simp add: TSchemata_fields_def)


text \<open>
  C4. In every run the queries are issued in the fixed order catalog name, schemata,
  tables, columns: the queries of a run, in the order of their issue, are an initial
  segment of that list. The connection is opened before the first of them.
\<close>

theorem queries_in_fixed_order:
  "prefix (filter is_Query (fst (main db_flag db)))
     [Query catalog_name_sql [], Query schemata_sql schemaWhitelist,
      Query tables_sql schemaWhitelist, Query columns_sql schemaWhitelist]
   \<and> take 1 (fst (main db_flag db)) = [Open ''postgres'' (flag_String db_flag)]"
  by (simp add: main_def fst_emit Fatal_def queries_deferred queries_session Let_def
      split: option.split)


text \<open>
  C2. When a listing stage returns zero rows, the run logs the stage's warning, closes
  the connection and returns; no later stage is queried and no error is raised. With
  zero schemas the queries on the tables view and on the columns view are never
  issued.
\<close>

theorem empty_result_short_circuit:
  assumes "dbr_Open db (flag_String db_flag) = None" and "LoadOne db = Inr dbName"
  shows
    "(Load_schemata db schemaWhitelist = Inr [] \<longrightarrow>
        main db_flag db =
          ([Open ''postgres'' (flag_String db_flag), Query catalog_name_sql [],
            Log InfoLevel (''db name: '' @ dbName) None,
            Query schemata_sql schemaWhitelist,
            Log WarnLevel ''no schemas available'' None, Close], Returned)
        \<and> (\<forall>args. Query tables_sql args \<notin> set (fst (main db_flag db)))
        \<and> (\<forall>args. Query columns_sql args \<notin> set (fst (main db_flag db))))
     \<and> (Load_schemata db schemaWhitelist = Inr schemas \<and> schemas \<noteq> []
          \<and> Load_tables db schemaWhitelist = Inr [] \<longrightarrow>
        main db_flag db =
          ([Open ''postgres'' (flag_String db_flag), Query catalog_name_sql [],
            Log InfoLevel (''db name: '' @ dbName) None,
            Query schemata_sql schemaWhitelist]
           @ map (\<lambda>v. Log DebugLevel (schema_line v) None) schemas
           @ [Query tables_sql schemaWhitelist,
              Log WarnLevel ''no tables available'' None, Close], Returned)
        \<and> (\<forall>args. Query columns_sql args \<notin> set (fst (main db_flag db))))
     \<and> (Load_schemata db schemaWhitelist = Inr schemas \<and> schemas \<noteq> []
          \<and> Load_tables db schemaWhitelist = Inr tables \<and> tables \<noteq> []
          \<and> Load_columns db schemaWhitelist = Inr [] \<longrightarrow>
        main db_flag db =
          ([Open ''postgres'' (flag_String db_flag), Query catalog_name_sql [],
            Log InfoLevel (''db name: '' @ dbName) None,
            Query schemata_sql schemaWhitelist]
           @ map (\<lambda>v. Log DebugLevel (schema_line v) None) schemas
           @ [Query tables_sql schemaWhitelist]
           @ map (\<lambda>v. Log DebugLevel (table_line v) None) tables
           @ [Query columns_sql schemaWhitelist,
              Log WarnLevel ''no columns available'' None, Close], Returned))"
proof (intro conjI impI)
  assume e: "Load_schemata db schemaWhitelist = Inr []"
  show m: "main db_flag db =
          ([Open ''postgres'' (flag_String db_flag), Query catalog_name_sql [],
            Log InfoLevel (''db name: '' @ dbName) None,
            Query schemata_sql schemaWhitelist,
            Log WarnLevel ''no schemas available'' None, Close], Returned)"
    by (simp add: main_open_ok [OF assms(1)] session_ok [OF assms(2)]
        schemas_stage_empty [OF e] emit_pair)
  show "\<forall>args. Query tables_sql args \<notin> set (fst (main db_flag db))"
    by (simp add: m sql_texts_distinct [symmetric])
  show "\<forall>args. Query columns_sql args \<notin> set (fst (main db_flag db))"
    by (simp add: m sql_texts_distinct [symmetric])
next
  assume h: "Load_schemata db schemaWhitelist = Inr schemas \<and> schemas \<noteq> []
          \<and> Load_tables db schemaWhitelist = Inr []"
  show m: "main db_flag db =
          ([Open ''postgres'' (flag_String db_flag), Query catalog_name_sql [],
            Log InfoLevel (''db name: '' @ dbName) None,
            Query schemata_sql schemaWhitelist]
           @ map (\<lambda>v. Log DebugLevel (schema_line v) None) schemas
           @ [Query tables_sql schemaWhitelist,
              Log WarnLevel ''no tables available'' None, Close], Returned)"
    using h
    by (simp add: main_open_ok [OF assms(1)] session_ok [OF assms(2)] schemas_stage_rows
        tables_stage_empty emit_pair Debugf_def)
  show "\<forall>args. Query columns_sql args \<notin> set (fst (main db_flag db))"
    by (auto simp add: m sql_texts_distinct [symmetric])
next
  assume h: "Load_schemata db schemaWhitelist = Inr schemas \<and> schemas \<noteq> []
          \<and> Load_tables db schemaWhitelist = Inr tables \<and> tables \<noteq> []
          \<and> Load_columns db schemaWhitelist = Inr []"
  then show "main db_flag db =
          ([Open ''postgres'' (flag_String db_flag), Query catalog_name_sql [],
            Log InfoLevel (''db name: '' @ dbName) None,
            Query schemata_sql schemaWhitelist]
           @ map (\<lambda>v. Log DebugLevel (schema_line v) None) schemas
           @ [Query tables_sql schemaWhitelist]
           @ map (\<lambda>v. Log DebugLevel (table_line v) None) tables
           @ [Query columns_sql schemaWhitelist,
              Log WarnLevel ''no columns available'' None, Close], Returned)"
    by (simp add: main_open_ok [OF assms(1)] session_ok [OF assms(2)] schemas_stage_rows
        tables_stage_rows columns_stage_empty emit_pair Debugf_def)
qed

theorem empty_result_short_circuit_witness:
  "main None no_schemas_db =
     ([Open ''postgres'' [], Query catalog_name_sql [],
       Log InfoLevel ''db name: app'' None, Query schemata_sql schemaWhitelist,
       Log WarnLevel ''no schemas available'' None, Close], Returned)
   \<and> main None no_tables_db =
     ([Open ''postgres'' [], Query catalog_name_sql [],
       Log InfoLevel ''db name: app'' None, Query schemata_sql schemaWhitelist,
       Log DebugLevel ''schema swipe owned by postgres'' None,
       Query tables_sql schemaWhitelist,
       Log WarnLevel ''no tables available'' None, Close], Returned)
   \<and> main None no_columns_db =
     ([Open ''postgres'' [], Query catalog_name_sql [],
       Log InfoLevel ''db name: app'' None, Query schemata_sql schemaWhitelist,
       Log DebugLevel ''schema swipe owned by postgres'' None,
       Query tables_sql schemaWhitelist,
       Log DebugLevel ''table swipe.users type BASE TABLE'' None,
       Query columns_sql schemaWhitelist,
       Log WarnLevel ''no columns available'' None, Close], Returned)"
  using empty_result_short_circuit [of no_schemas_db None "''app''" "[]" "[]"]
    empty_result_short_circuit [of no_tables_db None "''app''"
      "[schema_row ''swipe'' ''postgres'']" "[]"]
    empty_result_short_circuit [of no_columns_db None "''app''"
      "[schema_row ''swipe'' ''postgres'']" "[table_row ''swipe'' ''users'' ''BASE TABLE'']"]
  by (simp add: no_schemas_sel no_tables_sel no_columns_sel flag_String_def schema_line_def
      table_line_def schema_row_sel table_row_sel)


text \<open>
  C5. When one of the four queries returns an error, the run logs that error with
  \<^verbatim>\<open>Fatal\<close> and the process exits with code 1: after the failing query nothing else
  happens, the query is not issued again, and nothing of what the earlier stages
  loaded is written out at that point. What the earlier stages logged before the
  failing query stays where it was, in front of it.
\<close>

theorem query_error_is_fatal:
  assumes "dbr_Open db (flag_String db_flag) = None"
  shows
    "(LoadOne db = Inl err \<longrightarrow>
        main db_flag db =
          ([Open ''postgres'' (flag_String db_flag), Query catalog_name_sql [],
            Log FatalLevel ''load database name'' (Some err)], OsExit 1))
     \<and> (LoadOne db = Inr dbName \<and> Load_schemata db schemaWhitelist = Inl err \<longrightarrow>
        main db_flag db =
          ([Open ''postgres'' (flag_String db_flag), Query catalog_name_sql [],
            Log InfoLevel (''db name: '' @ dbName) None,
            Query schemata_sql schemaWhitelist,
            Log FatalLevel ''select schemas'' (Some err)], OsExit 1))
     \<and> (LoadOne db = Inr dbName \<and> Load_schemata db schemaWhitelist = Inr schemas
          \<and> schemas \<noteq> [] \<and> Load_tables db schemaWhitelist = Inl err \<longrightarrow>
        main db_flag db =
          ([Open ''postgres'' (flag_String db_flag), Query catalog_name_sql [],
            Log InfoLevel (''db name: '' @ dbName) None,
            Query schemata_sql schemaWhitelist]
           @ map (\<lambda>v. Log DebugLevel (schema_line v) None) schemas
           @ [Query tables_sql schemaWhitelist,
              Log FatalLevel ''select tables'' (Some err)], OsExit 1))
     \<and> (LoadOne db = Inr dbName \<and> Load_schemata db schemaWhitelist = Inr schemas
          \<and> schemas \<noteq> [] \<and> Load_tables db schemaWhitelist = Inr tables \<and> tables \<noteq> []
          \<and> Load_columns db schemaWhitelist = Inl err \<longrightarrow>
        main db_flag db =
          ([Open ''postgres'' (flag_String db_flag), Query catalog_name_sql [],
            Log InfoLevel (''db name: '' @ dbName) None,
            Query schemata_sql schemaWhitelist]
           @ map (\<lambda>v. Log DebugLevel (schema_line v) None) schemas
           @ [Query tables_sql schemaWhitelist]
           @ map (\<lambda>v. Log DebugLevel (table_line v) None) tables
           @ [Query columns_sql schemaWhitelist,
              Log FatalLevel ''select columns'' (Some err)], OsExit 1))"
proof (intro conjI impI)
  assume "LoadOne db = Inl err"
  then show "main db_flag db =
          ([Open ''postgres'' (flag_String db_flag), Query catalog_name_sql [],
            Log FatalLevel ''load database name'' (Some err)], OsExit 1)"
    by (simp add: main_open_ok [OF assms] session_err emit_pair)
next
  assume "LoadOne db = Inr dbName \<and> Load_schemata db schemaWhitelist = Inl err"
  then show "main db_flag db =
          ([Open ''postgres'' (flag_String db_flag), Query catalog_name_sql [],
            Log InfoLevel (''db name: '' @ dbName) None,
            Query schemata_sql schemaWhitelist,
            Log FatalLevel ''select schemas'' (Some err)], OsExit 1)"
    by (simp add: main_open_ok [OF assms] session_ok schemas_stage_err emit_pair)
next
  assume "LoadOne db = Inr dbName \<and> Load_schemata db schemaWhitelist = Inr schemas
          \<and> schemas \<noteq> [] \<and> Load_tables db schemaWhitelist = Inl err"
  then show "main db_flag db =
          ([Open ''postgres'' (flag_String db_flag), Query catalog_name_sql [],
            Log InfoLevel (''db name: '' @ dbName) None,
            Query schemata_sql schemaWhitelist]
           @ map (\<lambda>v. Log DebugLevel (schema_line v) None) schemas
           @ [Query tables_sql schemaWhitelist,
              Log FatalLevel ''select tables'' (Some err)], OsExit 1)"
    by (simp add: main_open_ok [OF assms] session_ok schemas_stage_rows tables_stage_err
        emit_pair Debugf_def)
next
  assume "LoadOne db = Inr dbName \<and> Load_schemata db schemaWhitelist = Inr schemas
          \<and> schemas \<noteq> [] \<and> Load_tables db schemaWhitelist = Inr tables \<and> tables \<noteq> []
          \<and> Load_columns db schemaWhitelist = Inl err"
  then show "main db_flag db =
          ([Open ''postgres'' (flag_String db_flag), Query catalog_name_sql [],
            Log InfoLevel (''db name: '' @ dbName) None,
            Query schemata_sql schemaWhitelist]
           @ map (\<lambda>v. Log DebugLevel (schema_line v) None) schemas
           @ [Query tables_sql schemaWhitelist]
           @ map (\<lambda>v. Log DebugLevel (table_line v) None) tables
           @ [Query columns_sql schemaWhitelist,
              Log FatalLevel ''select columns'' (Some err)], OsExit 1)"
    by (simp add: main_open_ok [OF assms] session_ok schemas_stage_rows tables_stage_rows
        columns_stage_err emit_pair Debugf_def)
qed

theorem query_error_is_fatal_witness:
  "main None (failing CatalogNameView) =
     ([Open ''postgres'' [], Query catalog_name_sql [],
       Log FatalLevel ''load database name'' (Some (Err ''permission denied''))], OsExit 1)
   \<and> main (Some ''dbname=app'') (failing SchemataView) =
     ([Open ''postgres'' ''dbname=app'', Query catalog_name_sql [],
       Log InfoLevel ''db name: app'' None, Query schemata_sql schemaWhitelist,
       Log FatalLevel ''select schemas'' (Some (Err ''permission denied''))], OsExit 1)
   \<and> main None (failing TablesView) =
     ([Open ''postgres'' [], Query catalog_name_sql [],
       Log InfoLevel ''db name: app'' None, Query schemata_sql schemaWhitelist,
       Log DebugLevel ''schema swipe owned by postgres'' None,
       Query tables_sql schemaWhitelist,
       Log FatalLevel ''select tables'' (Some (Err ''permission denied''))], OsExit 1)
   \<and> main None (failing ColumnsView) =
     ([Open ''postgres'' [], Query catalog_name_sql [],
       Log InfoLevel ''db name: app'' None, Query schemata_sql schemaWhitelist,
       Log DebugLevel ''schema swipe owned by postgres'' None,
       Query tables_sql schemaWhitelist,
       Log DebugLevel ''table swipe.users type BASE TABLE'' None,
       Query columns_sql schemaWhitelist,
       Log FatalLevel ''select columns'' (Some (Err ''permission denied''))], OsExit 1)"
  using query_error_is_fatal [of "failing CatalogNameView" None "Err ''permission denied''"]
    query_error_is_fatal [of "failing SchemataView" "Some ''dbname=app''"
      "Err ''permission denied''" "''app''"]
    query_error_is_fatal [of "failing TablesView" None "Err ''permission denied''" "''app''"
      "[schema_row ''swipe'' ''postgres'']"]
    query_error_is_fatal [of "failing ColumnsView" None "Err ''permission denied''" "''app''"
      "[schema_row ''swipe'' ''postgres'']" "[table_row ''swipe'' ''users'' ''BASE TABLE'']"]
  by (simp add: failing_sel failing_more_sel flag_String_def schema_line_def table_line_def
      schema_row_sel table_row_sel)

text \<open>
  C10. The program does not look at the connection string: the first thing a run does
  is to open the connection with the value of the \<^verbatim>\<open>-db\<close> flag, the empty string when
  the flag is absent. When the open is refused the run logs the connection error with
  \<^verbatim>\<open>Fatal\<close> and exits with code 1. When the open is accepted the rest of the run is
  the session on the database and the deferred \<^verbatim>\<open>Close\<close>, whatever the string was.
  The process exits through \<^verbatim>\<open>os.Exit\<close> only with code 1 and only right after one of
  five \<^verbatim>\<open>Fatal\<close> logs, each carrying the error that the open or one of the four
  queries returned: there is no exit for a usage error.
\<close>

theorem connection_string_not_validated:
  "take 1 (fst (main db_flag db)) = [Open ''postgres'' (flag_String db_flag)]
   \<and> take 1 (fst (main None db)) = [Open ''postgres'' []]
   \<and> (dbr_Open db (flag_String db_flag) = Some err \<longrightarrow>
        main db_flag db =
          ([Open ''postgres'' (flag_String db_flag),
            Log FatalLevel ''Cannot connect to db'' (Some err)], OsExit 1))
   \<and> (dbr_Open db (flag_String db_flag) = None \<longrightarrow>
        main db_flag db =
          emit [Open ''postgres'' (flag_String db_flag)] (deferred Close (session db)))
   \<and> (snd (main db_flag db) = OsExit c \<longrightarrow>
        c = 1
        \<and> ((\<exists>e. dbr_Open db (flag_String db_flag) = Some e
             \<and> last (fst (main db_flag db))
                 = Log FatalLevel ''Cannot connect to db'' (Some e))
           \<or> (\<exists>e. LoadOne db = Inl e
             \<and> last (fst (main db_flag db))
                 = Log FatalLevel ''load database name'' (Some e))
           \<or> (\<exists>e. Load_schemata db schemaWhitelist = Inl e
             \<and> last (fst (main db_flag db)) = Log FatalLevel ''select schemas'' (Some e))
           \<or> (\<exists>e. Load_tables db schemaWhitelist = Inl e
             \<and> last (fst (main db_flag db)) = Log FatalLevel ''select tables'' (Some e))
           \<or> (\<exists>e. Load_columns db schemaWhitelist = Inl e
             \<and> last (fst (main db_flag db)) = Log FatalLevel ''select columns'' (Some e))))"
proof (intro conjI impI)
  show "take 1 (fst (main db_flag db)) = [Open ''postgres'' (flag_String db_flag)]"
    by (simp add: main_def fst_emit Let_def)
  show "take 1 (fst (main None db)) = [Open ''postgres'' []]"
    by (simp add: main_def fst_emit Let_def flag_String_def)
next
  assume "dbr_Open db (flag_String db_flag) = Some err"
  then show "main db_flag db =
          ([Open ''postgres'' (flag_String db_flag),
            Log FatalLevel ''Cannot connect to db'' (Some err)], OsExit 1)"
    by (rule main_open_err)
next
  assume "dbr_Open db (flag_String db_flag) = None"
  then show "main db_flag db =
          emit [Open ''postgres'' (flag_String db_flag)] (deferred Close (session db))"
    by (rule main_open_ok)
next
  assume x: "snd (main db_flag db) = OsExit c"
  from main_exit [OF x] show "c = 1" by simp
  from main_exit [OF x]
  show "(\<exists>e. dbr_Open db (flag_String db_flag) = Some e
             \<and> last (fst (main db_flag db))
                 = Log FatalLevel ''Cannot connect to db'' (Some e))
           \<or> (\<exists>e. LoadOne db = Inl e
             \<and> last (fst (main db_flag db))
                 = Log FatalLevel ''load database name'' (Some e))
           \<or> (\<exists>e. Load_schemata db schemaWhitelist = Inl e
             \<and> last (fst (main db_flag db)) = Log FatalLevel ''select schemas'' (Some e))
           \<or> (\<exists>e. Load_tables db schemaWhitelist = Inl e
             \<and> last (fst (main db_flag db)) = Log FatalLevel ''select tables'' (Some e))
           \<or> (\<exists>e. Load_columns db schemaWhitelist = Inl e
             \<and> last (fst (main db_flag db)) = Log FatalLevel ''select columns'' (Some e))"
    by simp
qed

theorem connection_string_not_validated_witness:
  "main None unreachable_db =
     ([Open ''postgres'' [], Log FatalLevel ''Cannot connect to db''
         (Some (Err ''connection refused''))], OsExit 1)
   \<and> last (fst (main None unreachable_db)) =
       Log FatalLevel ''Cannot connect to db'' (Some (Err ''connection refused''))
   \<and> main (Some ''not a connection string'') users_db =
       emit [Open ''postgres'' ''not a connection string''] (deferred Close (session users_db))
   \<and> main None users_db = emit [Open ''postgres'' []] (deferred Close (session users_db))"
  using connection_string_not_validated [of None unreachable_db "Err ''connection refused''" 1]
    connection_string_not_validated [of "Some ''not a connection string''" users_db]
    connection_string_not_validated [of None users_db]
  by (simp add: unreachable_sel users_db_sel flag_String_def)

text \<open>
  C8, as the code has it. A run that completes the three listing stages writes the
  line with the catalog name at level Info and calls the logger at level Debug once
  for each schema, each table and each column, in the order of the rows, with the
  messages of the claim. The logger of \<open>main\<close> stays at level Info, so in no run a
  Debug call is written: the written lines of a complete run are the catalog-name
  line alone.
\<close>

theorem per_row_debug_calls:
  assumes "dbr_Open db (flag_String db_flag) = None" and "LoadOne db = Inr dbName"
    and "Load_schemata db schemaWhitelist = Inr schemas" and "schemas \<noteq> []"
    and "Load_tables db schemaWhitelist = Inr tables" and "tables \<noteq> []"
    and "Load_columns db schemaWhitelist = Inr columns" and "columns \<noteq> []"
  shows
    "main db_flag db =
       ([Open ''postgres'' (flag_String db_flag), Query catalog_name_sql [],
         Log InfoLevel (''db name: '' @ dbName) None,
         Query schemata_sql schemaWhitelist]
        @ map (\<lambda>v. Log DebugLevel
                 (''schema '' @ String (SchemaName v) @ '' owned by '' @ String (SchemaOwner v))
                 None) schemas
        @ [Query tables_sql schemaWhitelist]
        @ map (\<lambda>v. Log DebugLevel
                 (''table '' @ String (TTables.TableSchema v) @ ''.''
                    @ String (TTables.TableName v) @ '' type '' @ String (TableType v))
                 None) tables
        @ [Query columns_sql schemaWhitelist]
        @ map (\<lambda>v. Log DebugLevel
                 (''column '' @ String (TColumns.TableSchema v) @ ''.''
                    @ String (TColumns.TableName v) @ ''.'' @ String (ColumnName v))
                 None) columns
        @ [Close], Returned)
     \<and> log_output db_flag db = [Log InfoLevel (''db name: '' @ dbName) None]
     \<and> (\<forall>flag d msg err. Log DebugLevel msg err \<notin> set (log_output flag d))"
proof (intro conjI)
  show m: "main db_flag db =
       ([Open ''postgres'' (flag_String db_flag), Query catalog_name_sql [],
         Log InfoLevel (''db name: '' @ dbName) None,
         Query schemata_sql schemaWhitelist]
        @ map (\<lambda>v. Log DebugLevel
                 (''schema '' @ String (SchemaName v) @ '' owned by '' @ String (SchemaOwner v))
                 None) schemas
        @ [Query tables_sql schemaWhitelist]
        @ map (\<lambda>v. Log DebugLevel
                 (''table '' @ String (TTables.TableSchema v) @ ''.''
                    @ String (TTables.TableName v) @ '' type '' @ String (TableType v))
                 None) tables
        @ [Query columns_sql schemaWhitelist]
        @ map (\<lambda>v. Log DebugLevel
                 (''column '' @ String (TColumns.TableSchema v) @ ''.''
                    @ String (TColumns.TableName v) @ ''.'' @ String (ColumnName v))
                 None) columns
        @ [Close], Returned)"
    by (simp add: main_open_ok [OF assms(1)] session_ok [OF assms(2)]
        schemas_stage_rows [OF assms(3,4)] tables_stage_rows [OF assms(5,6)]
        columns_stage_rows [OF assms(7,8)] emit_pair Debugf_def schema_line_def
        table_line_def column_line_def)
  show "log_output db_flag db = [Log InfoLevel (''db name: '' @ dbName) None]"
    unfolding log_output_def m by (simp add: written_Debugf) (simp add: logrus_New_def)
  show "\<forall>flag d msg err. Log DebugLevel msg err \<notin> set (log_output flag d)"
    by (simp add: log_output_def logrus_New_def)
qed

theorem per_row_debug_calls_witness:
  "main None users_db =
     ([Open ''postgres'' [], Query catalog_name_sql [],
       Log InfoLevel ''db name: app'' None,
       Query schemata_sql schemaWhitelist,
       Log DebugLevel ''schema swipe owned by postgres'' None,
       Query tables_sql schemaWhitelist,
       Log DebugLevel ''table swipe.users type BASE TABLE'' None,
       Query columns_sql schemaWhitelist,
       Log DebugLevel ''column swipe.users.id'' None,
       Log DebugLevel ''column swipe.users.name'' None,
       Close], Returned)"
  using per_row_debug_calls [of users_db None "''app''" "[schema_row ''swipe'' ''postgres'']"
      "[table_row ''swipe'' ''users'' ''BASE TABLE'']"
      "[column_row ''swipe'' ''users'' ''id'' 1 ''NO'' ''integer'',
        column_row ''swipe'' ''users'' ''name'' 2 ''YES'' ''text'']"]
  by (simp add: users_db_sel Load_users_schemata Load_users_tables Load_users_columns
      flag_String_def schema_row_sel table_row_sel column_row_sel)

text \<open>
  C8, as the claim states it, fails: the run on the example catalog is successful and
  its schema query returns the row of \<open>swipe\<close>, yet the only line written is the one
  with the catalog name.
\<close>

theorem per_row_lines_not_written:
  "snd (main None users_db) = Returned
   \<and> Load_schemata users_db schemaWhitelist = Inr [schema_row ''swipe'' ''postgres'']
   \<and> log_output None users_db = [Log InfoLevel ''db name: app'' None]"
  by (simp add: log_output_def main_users Load_users_schemata) (simp add: logrus_New_def)


text \<open>
  C1. For every whitelist, a row of a view is in the result of the query exactly when
  its schema name is present and is an element of the whitelist, for the schemata, the
  tables and the columns alike. With the whitelist of the program, \<open>swipe\<close>, no row
  of the result is named \<open>swipe2\<close> or \<open>Swipe\<close>.
\<close>

theorem whitelist_exact_membership:
  "(Load_schemata db whitelist = Inr schemas \<longrightarrow>
      (r \<in> set schemas \<longleftrightarrow>
         r \<in> set (schemata_view db) \<and> NullString.Valid (SchemaName r)
         \<and> String (SchemaName r) \<in> set whitelist))
   \<and> (Load_tables db whitelist = Inr tables \<longrightarrow>
      (t \<in> set tables \<longleftrightarrow>
         t \<in> set (tables_view db) \<and> NullString.Valid (TTables.TableSchema t)
         \<and> String (TTables.TableSchema t) \<in> set whitelist))
   \<and> (Load_columns db whitelist = Inr columns \<longrightarrow>
      (c \<in> set columns \<longleftrightarrow>
         c \<in> set (columns_view db) \<and> NullString.Valid (TColumns.TableSchema c)
         \<and> String (TColumns.TableSchema c) \<in> set whitelist))
   \<and> (Load_schemata db schemaWhitelist = Inr schemas \<and> r \<in> set schemas \<longrightarrow>
      String (SchemaName r) \<noteq> ''swipe2'' \<and> String (SchemaName r) \<noteq> ''Swipe'')"
  by (auto simp add: Load_schemata_def Load_tables_def Load_columns_def sql_IN_def
      schemaWhitelist_def split: option.splits)

theorem whitelist_exact_membership_witness:
  "Load_schemata users_db schemaWhitelist = Inr [schema_row ''swipe'' ''postgres'']
   \<and> schema_row ''swipe2'' ''postgres'' \<in> set (schemata_view users_db)
   \<and> schema_row ''swipe2'' ''postgres'' \<notin> set [schema_row ''swipe'' ''postgres'']
   \<and> schema_row ''Swipe'' ''postgres'' \<in> set (schemata_view users_db)
   \<and> schema_row ''Swipe'' ''postgres'' \<notin> set [schema_row ''swipe'' ''postgres'']
   \<and> schema_row ''swipe'' ''postgres'' \<in> set [schema_row ''swipe'' ''postgres'']"
  using whitelist_exact_membership [of users_db schemaWhitelist
      "[schema_row ''swipe'' ''postgres'']" "schema_row ''swipe2'' ''postgres''"]
    whitelist_exact_membership [of users_db schemaWhitelist
      "[schema_row ''swipe'' ''postgres'']" "schema_row ''Swipe'' ''postgres''"]
  by (simp add: Load_users_schemata schema_row_sel users_schemata_view set_schemaWhitelist)

text \<open>
  C9, as the code has it. The query on the columns view returns the rows of the view
  whose schema is in the whitelist, unchanged and in the order of the view. For every
  row of the view in a whitelisted schema, the rows of its (catalog, schema, table) key
  in the result are the rows of that key in the view, so the ordinal positions of the
  table in the result are those of the view: they are exactly \<open>1, ..., N\<close> in the
  result if and only if the view has them so for that table. In particular positions
  that are right in every table of the view are right in every table of the result. The
  program neither checks the positions nor puts them right.
\<close>

theorem ordinals_passed_through:
  assumes "Load_columns db whitelist = Inr columns"
  shows
    "columns = filter (\<lambda>x. NullString.Valid (TColumns.TableSchema x)
                 \<and> String (TColumns.TableSchema x) \<in> set whitelist) (columns_view db)
     \<and> (r \<in> set (columns_view db) \<and> NullString.Valid (TColumns.TableSchema r)
          \<and> String (TColumns.TableSchema r) \<in> set whitelist \<longrightarrow>
        r \<in> set columns
        \<and> filter (same_table r) columns = filter (same_table r) (columns_view db)
        \<and> positions columns r = positions (columns_view db) r
        \<and> (table_contiguous columns r \<longleftrightarrow> table_contiguous (columns_view db) r))
     \<and> (ordinals_contiguous (columns_view db) \<longrightarrow> ordinals_contiguous columns)"
proof -
  from assms have c: "columns = filter (\<lambda>x. sql_IN (TColumns.TableSchema x) whitelist)
      (columns_view db)"
    by (simp add: Load_columns_def split: option.splits)
  have 1: "columns = filter (\<lambda>x. NullString.Valid (TColumns.TableSchema x)
                 \<and> String (TColumns.TableSchema x) \<in> set whitelist) (columns_view db)"
    unfolding c by (simp add: sql_IN_def)
  have 2: "r \<in> set columns
        \<and> filter (same_table r) columns = filter (same_table r) (columns_view db)
        \<and> positions columns r = positions (columns_view db) r
        \<and> (table_contiguous columns r \<longleftrightarrow> table_contiguous (columns_view db) r)"
    if "r \<in> set (columns_view db)" and "NullString.Valid (TColumns.TableSchema r)"
      and "String (TColumns.TableSchema r) \<in> set whitelist"
  proof -
    from that have s: "sql_IN (TColumns.TableSchema r) whitelist"
      by (simp add: sql_IN_def)
    have m: "r \<in> set columns"
      unfolding c using that(1) s by simp
    have f: "filter (same_table r) columns = filter (same_table r) (columns_view db)"
      unfolding c by (rule same_table_filter [OF s])
    have p: "positions columns r = positions (columns_view db) r"
      unfolding c by (rule positions_filter [OF s])
    show ?thesis
      using m f p by (simp add: table_contiguous_def)
  qed
  have 3: "ordinals_contiguous columns" if "ordinals_contiguous (columns_view db)"
    using that unfolding c ordinals_contiguous_def
    by (simp add: list_all_iff positions_filter table_contiguous_def)
  from 1 2 3 show ?thesis by blast
qed

theorem ordinals_passed_through_witness:
  "Load_columns users_db schemaWhitelist =
     Inr [column_row ''swipe'' ''users'' ''id'' 1 ''NO'' ''integer'',
          column_row ''swipe'' ''users'' ''name'' 2 ''YES'' ''text'']
   \<and> positions [column_row ''swipe'' ''users'' ''id'' 1 ''NO'' ''integer'',
                 column_row ''swipe'' ''users'' ''name'' 2 ''YES'' ''text'']
        (column_row ''swipe'' ''users'' ''id'' 1 ''NO'' ''integer'')
       = positions (columns_view users_db)
           (column_row ''swipe'' ''users'' ''id'' 1 ''NO'' ''integer'')
   \<and> positions (columns_view users_db)
        (column_row ''swipe'' ''users'' ''id'' 1 ''NO'' ''integer'') = [1, 2]
   \<and> table_contiguous [column_row ''swipe'' ''users'' ''id'' 1 ''NO'' ''integer'',
                        column_row ''swipe'' ''users'' ''name'' 2 ''YES'' ''text'']
        (column_row ''swipe'' ''users'' ''id'' 1 ''NO'' ''integer'')
   \<and> ordinals_contiguous (columns_view users_db)
   \<and> ordinals_contiguous [column_row ''swipe'' ''users'' ''id'' 1 ''NO'' ''integer'',
                           column_row ''swipe'' ''users'' ''name'' 2 ''YES'' ''text'']"
proof -
  have p: "positions (columns_view users_db)
        (column_row ''swipe'' ''users'' ''id'' 1 ''NO'' ''integer'') = [1, 2]"
    by (simp add: users_columns_view positions_def same_table_def column_row_key
        column_row_sel text_value_eq)
  have t: "table_contiguous (columns_view users_db)
        (column_row ''swipe'' ''users'' ''id'' 1 ''NO'' ''integer'')"
    by (simp add: table_contiguous_def p upt_rec)
  have h: "ordinals_contiguous (columns_view users_db)"
    by (simp add: ordinals_contiguous_def table_contiguous_def users_columns_view positions_def
        same_table_def
        column_row_key column_row_sel text_value_eq upt_rec)
  have r: "column_row ''swipe'' ''users'' ''id'' 1 ''NO'' ''integer''
      \<in> set (columns_view users_db)"
    by (simp add: users_columns_view)
  note inst = ordinals_passed_through [OF Load_users_columns,
      of "column_row ''swipe'' ''users'' ''id'' 1 ''NO'' ''integer''"]
  from inst [THEN conjunct2, THEN conjunct1] inst [THEN conjunct2, THEN conjunct2] r p t h
  show ?thesis
    by (simp add: Load_users_columns column_row_sel set_schemaWhitelist)
qed

text \<open>
  C9, as the claim states it, fails: after a column of \<open>swipe.users\<close> has been dropped
  the view has the positions 1 and 3 for the table, and so has the result of the
  query.
\<close>

theorem ordinals_gap_returned:
  "Load_columns dropped_column_db schemaWhitelist =
     Inr [column_row ''swipe'' ''users'' ''id'' 1 ''NO'' ''integer'',
          column_row ''swipe'' ''users'' ''email'' 3 ''YES'' ''text'']
   \<and> \<not> ordinals_contiguous [column_row ''swipe'' ''users'' ''id'' 1 ''NO'' ''integer'',
                              column_row ''swipe'' ''users'' ''email'' 3 ''YES'' ''text'']
   \<and> positions [column_row ''swipe'' ''users'' ''id'' 1 ''NO'' ''integer'',
                 column_row ''swipe'' ''users'' ''email'' 3 ''YES'' ''text'']
        (column_row ''swipe'' ''users'' ''id'' 1 ''NO'' ''integer'') = [1, 3]"
  by (simp add: Load_dropped_columns ordinals_contiguous_def table_contiguous_def positions_def
      same_table_def
      column_row_key column_row_sel text_value_eq upt_rec)

end
